theory Spec2Isabelle
  imports Main "HOL-Library.Word" "HOL-Library.Signed_Division"
begin

unbundle bit_operations_syntax

section \<open>Bytes and the memory image of integers\<close>

text \<open>
  \<^verbatim>\<open>vhd.c\<close> is Windows code: a multi-byte integer lies in memory with its least
  significant byte first. \<open>word_bytes n w\<close> are the \<open>n\<close> bytes of \<open>w\<close> in memory and
  \<open>word_le\<close> reads such bytes back. The \<^verbatim>\<open>bswap_uint*\<close> intrinsics reverse the bytes
  of their argument.
\<close>

type_synonym byte = "8 word"

primrec word_bytes :: "nat \<Rightarrow> 'a::len word \<Rightarrow> byte list" where
  "word_bytes 0 w = []"
| "word_bytes (Suc n) w = ucast w # word_bytes n (drop_bit 8 w)"

fun word_le :: "byte list \<Rightarrow> 'a::len word" where
  "word_le [] = 0"
| "word_le (b # bs) = ucast b OR push_bit 8 (word_le bs)"

definition bswap_uint16 :: "16 word \<Rightarrow> 16 word" where
  "bswap_uint16 x = word_le (rev (word_bytes 2 x))"

definition bswap_uint32 :: "32 word \<Rightarrow> 32 word" where
  "bswap_uint32 x = word_le (rev (word_bytes 4 x))"

definition bswap_uint64 :: "64 word \<Rightarrow> 64 word" where
  "bswap_uint64 x = word_le (rev (word_bytes 8 x))"

definition c_str :: "string \<Rightarrow> byte list" where
  "c_str s = map of_char s"

section \<open>The VHD footer\<close>

definition VHD_FOOTER_COOKIE :: "byte list" where
  "VHD_FOOTER_COOKIE = c_str ''conectix''"

definition VHD_FOOTER_FEATURES_RESERVED :: "32 word" where
  "VHD_FOOTER_FEATURES_RESERVED = 0x00000002"

definition VHD_FOOTER_FILE_FORMAT_V1_0 :: "32 word" where
  "VHD_FOOTER_FILE_FORMAT_V1_0 = 0x00010000"

definition VHD_FOOTER_DATA_OFFSET_FIXED_DISK :: "64 word" where
  "VHD_FOOTER_DATA_OFFSET_FIXED_DISK = 0xFFFFFFFFFFFFFFFF"

definition VHD_FOOTER_CREATOR_HOST_OS_WINDOWS :: "byte list" where
  "VHD_FOOTER_CREATOR_HOST_OS_WINDOWS = c_str ''Wi2k''"

definition VHD_FOOTER_TYPE_FIXED_HARD_DISK :: "32 word" where
  "VHD_FOOTER_TYPE_FIXED_HARD_DISK = 0x00000002"

definition SECONDS_SINCE_JAN_1ST_2000 :: "32 word" where
  "SECONDS_SINCE_JAN_1ST_2000 = 946684800"

definition conectix_str :: "byte list" where
  "conectix_str = VHD_FOOTER_COOKIE"

text \<open>
  \<^verbatim>\<open>struct vhd_footer\<close>, packed. The fields hold what the C fields hold, that is the
  host-order value of the four (or two, or eight) bytes in memory; the character and
  byte arrays are lists, of the length \<open>footer_wf\<close> gives. The union
  \<^verbatim>\<open>disk_geometry\<close> is only ever used through its \<^verbatim>\<open>chs\<close> view.
\<close>

record vhd_footer =
  cookie :: "byte list"
  features :: "32 word"
  file_format_version :: "32 word"
  data_offset :: "64 word"
  timestamp :: "32 word"
  creator_app :: "byte list"
  creator_version :: "32 word"
  creator_host_os :: "byte list"
  original_size :: "64 word"
  current_size :: "64 word"
  cylinders :: "16 word"
  heads :: byte
  sectors :: byte
  disk_type :: "32 word"
  checksum :: "32 word"
  unique_id :: "byte list"
  saved_state :: byte
  reserved :: "byte list"

definition footer_wf :: "vhd_footer \<Rightarrow> bool" where
  "footer_wf f \<longleftrightarrow>
     length (cookie f) = 8 \<and> length (creator_app f) = 4 \<and> length (creator_host_os f) = 4 \<and>
     length (unique_id f) = 16 \<and> length (reserved f) = 427"

text \<open>The bytes \<^verbatim>\<open>((uint8_t*)footer)[0 .. sizeof(vhd_footer) - 1]\<close>.\<close>

definition footer_bytes :: "vhd_footer \<Rightarrow> byte list" where
  "footer_bytes f =
     cookie f @ word_bytes 4 (features f) @ word_bytes 4 (file_format_version f) @
     word_bytes 8 (data_offset f) @ word_bytes 4 (timestamp f) @ creator_app f @
     word_bytes 4 (creator_version f) @ creator_host_os f @
     word_bytes 8 (original_size f) @ word_bytes 8 (current_size f) @
     word_bytes 2 (cylinders f) @ [heads f, sectors f] @
     word_bytes 4 (disk_type f) @ word_bytes 4 (checksum f) @
     unique_id f @ [saved_state f] @ reserved f"

text \<open>A buffer of \<^verbatim>\<open>sizeof(vhd_footer)\<close> bytes seen as a \<^verbatim>\<open>vhd_footer*\<close>.\<close>

definition footer_of_bytes :: "byte list \<Rightarrow> vhd_footer" where
  "footer_of_bytes bs =
     \<lparr> cookie = take 8 bs,
       features = word_le (take 4 (drop 8 bs)),
       file_format_version = word_le (take 4 (drop 12 bs)),
       data_offset = word_le (take 8 (drop 16 bs)),
       timestamp = word_le (take 4 (drop 24 bs)),
       creator_app = take 4 (drop 28 bs),
       creator_version = word_le (take 4 (drop 32 bs)),
       creator_host_os = take 4 (drop 36 bs),
       original_size = word_le (take 8 (drop 40 bs)),
       current_size = word_le (take 8 (drop 48 bs)),
       cylinders = word_le (take 2 (drop 56 bs)),
       heads = word_le (take 1 (drop 58 bs)),
       sectors = word_le (take 1 (drop 59 bs)),
       disk_type = word_le (take 4 (drop 60 bs)),
       checksum = word_le (take 4 (drop 64 bs)),
       unique_id = take 16 (drop 68 bs),
       saved_state = word_le (take 1 (drop 84 bs)),
       reserved = take 427 (drop 85 bs) \<rparr>"

text \<open>\<^verbatim>\<open>calloc(1, sizeof(vhd_footer))\<close>: every byte is zero.\<close>

definition calloc_footer :: vhd_footer where
  "calloc_footer =
     \<lparr> cookie = replicate 8 0, features = 0, file_format_version = 0, data_offset = 0,
       timestamp = 0, creator_app = replicate 4 0, creator_version = 0,
       creator_host_os = replicate 4 0, original_size = 0, current_size = 0,
       cylinders = 0, heads = 0, sectors = 0, disk_type = 0, checksum = 0,
       unique_id = replicate 16 0, saved_state = 0, reserved = replicate 427 0 \<rparr>"

text \<open>
  The loop \<^verbatim>\<open>for (checksum=0, i=0; i<sizeof(vhd_footer); i++) checksum += ((uint8_t*)footer)[i];\<close>
  of both \<^verbatim>\<open>AppendVHDFooter\<close> and \<^verbatim>\<open>IsHDImage\<close>; the \<^verbatim>\<open>uint32_t\<close> sum wraps.
\<close>

definition byte_sum :: "byte list \<Rightarrow> 32 word" where
  "byte_sum bs = foldl (\<lambda>checksum b. checksum + ucast b) 0 bs"

subsection \<open>CHS geometry, as \<^verbatim>\<open>AppendVHDFooter\<close> computes it\<close>

text \<open>
  \<^verbatim>\<open>totalSectors = li.QuadPart / 512\<close>: \<^verbatim>\<open>li.QuadPart\<close> is a signed 64-bit integer, the
  division is C's (it truncates towards zero) and the quotient is converted to
  \<^verbatim>\<open>uint64_t\<close>; then the clamp.
\<close>

definition total_sectors :: "64 word \<Rightarrow> 64 word" where
  "total_sectors li =
     (let totalSectors = word_of_int (sint li sdiv 512) :: 64 word
      in if totalSectors > 65535 * 16 * 255 then 65535 * 16 * 255 else totalSectors)"

text \<open>
  The geometry proper; the result is \<open>(cylinders, heads, sectorsPerTrack)\<close>.
  \<^verbatim>\<open>heads\<close> and \<^verbatim>\<open>sectorsPerTrack\<close> are \<^verbatim>\<open>uint8_t\<close>, \<^verbatim>\<open>cylinderTimesHeads\<close> is
  \<^verbatim>\<open>uint32_t\<close> and \<^verbatim>\<open>cylinders\<close> is \<^verbatim>\<open>uint16_t\<close>: each assignment truncates.
\<close>

definition chs_small :: "64 word \<Rightarrow> byte \<times> byte \<times> 32 word" where
  "chs_small totalSectors =
     (let sectorsPerTrack = 17 :: byte;
          cylinderTimesHeads = ucast (totalSectors div ucast sectorsPerTrack) :: 32 word;
          heads = ucast ((cylinderTimesHeads + 1023) div 1024) :: byte;
          heads = (if heads < 4 then 4 else heads);
          (sectorsPerTrack, heads, cylinderTimesHeads) =
            (if cylinderTimesHeads \<ge> ucast heads * 1024 \<or> heads > 16
             then (31, 16, ucast (totalSectors div 31))
             else (sectorsPerTrack, heads, cylinderTimesHeads));
          (sectorsPerTrack, heads, cylinderTimesHeads) =
            (if cylinderTimesHeads \<ge> ucast heads * 1024
             then (63, 16, ucast (totalSectors div 63))
             else (sectorsPerTrack, heads, cylinderTimesHeads))
      in (sectorsPerTrack, heads, cylinderTimesHeads))"

definition compute_chs :: "64 word \<Rightarrow> 16 word \<times> byte \<times> byte" where
  "compute_chs totalSectors =
     (let (sectorsPerTrack, heads, cylinderTimesHeads) =
            (if totalSectors \<ge> 65535 * 16 * 63
             then (255, 16, ucast (totalSectors div 255))
             else chs_small totalSectors);
          cylinders = ucast (cylinderTimesHeads div ucast heads) :: 16 word
      in (cylinders, heads, sectorsPerTrack))"

subsection \<open>\<^verbatim>\<open>AppendVHDFooter\<close>\<close>

text \<open>
  What \<^verbatim>\<open>AppendVHDFooter\<close> takes from its surroundings: whether the file opens for
  writing and the seek to its end succeeds, whether \<^verbatim>\<open>calloc\<close> succeeds, the clock
  (\<^verbatim>\<open>_time32\<close>), the global \<^verbatim>\<open>rufus_version\<close> (declared in \<^verbatim>\<open>rufus.h\<close>), what
  \<^verbatim>\<open>UuidCreate\<close> does (\<open>None\<close> when \<^verbatim>\<open>pfUuidCreate\<close> is \<^verbatim>\<open>NULL\<close>; otherwise whether it
  returned \<^verbatim>\<open>RPC_S_OK\<close> and the sixteen bytes it left in \<^verbatim>\<open>unique_id\<close>) and how
  \<^verbatim>\<open>WriteFile\<close> ends (its return value and the number of bytes it wrote).
\<close>

record append_env =
  ae_open_seek_ok :: bool
  ae_calloc_ok :: bool
  ae_time32 :: "32 word"
  ae_rufus_version0 :: "16 word"
  ae_rufus_version1 :: "16 word"
  ae_UuidCreate :: "(bool \<times> byte list) option"
  ae_write_ok :: bool
  ae_written :: nat

text \<open>
  The lines \<^verbatim>\<open>uprintf\<close> writes, by what they report; the four library entry points
  of \<^verbatim>\<open>wimgapi.dll\<close> (and \<^verbatim>\<open>WIMCloseHandle\<close>) that \<^verbatim>\<open>PF_INIT\<close> resolves.
\<close>

datatype wim_proc =
  WIMCreateFile | WIMSetTemporaryPath | WIMLoadImage | WIMExtractImagePath | WIMCloseHandle

datatype log_msg =
    Could_not_open_image
  | Could_not_allocate_VHD_footer
  | Could_not_set_VHD_UUID
  | Could_not_write_VHD_footer
  | Could_not_get_image_size
  | Could_not_read_VHD_footer
  | Unsupported_type_of_VHD_image
  | VHD_footer_seems_corrupted "32 word" "32 word"
  | Image_is_a_Fixed_Hard_Disk_VHD_file
  | WIM_extraction_methods_supported bool bool
  | Unable_to_locate wim_proc
  | Opening_API string "32 word"
  | Could_not_fetch_temp_path
  | Could_not_access_image
  | Could_not_set_temp_path
  | Could_not_set_index
  | Extracting string string
  | Could_not_extract_file
  | Closing string
  | Opening_7z string "32 word"
  | Could_not_launch_7z
  | Did_not_extract string
  | Could_not_rename string string

text \<open>
  Lines 149 to 196: the fields of the freshly allocated record, for a file whose size
  (the \<^verbatim>\<open>li.QuadPart\<close> the seek returns) is \<open>li\<close>. The checksum field is not written
  here and keeps the zero of \<^verbatim>\<open>calloc\<close>.
\<close>

definition fill_footer :: "append_env \<Rightarrow> 64 word \<Rightarrow> vhd_footer" where
  "fill_footer env li =
     (let footer = calloc_footer;
          footer = footer\<lparr>cookie := conectix_str\<rparr>;
          footer = footer\<lparr>features := bswap_uint32 VHD_FOOTER_FEATURES_RESERVED\<rparr>;
          footer = footer\<lparr>file_format_version := bswap_uint32 VHD_FOOTER_FILE_FORMAT_V1_0\<rparr>;
          footer = footer\<lparr>data_offset := bswap_uint64 VHD_FOOTER_DATA_OFFSET_FIXED_DISK\<rparr>;
          footer = footer\<lparr>timestamp := bswap_uint32 (ae_time32 env - SECONDS_SINCE_JAN_1ST_2000)\<rparr>;
          footer = footer\<lparr>creator_app := c_str ''rufu''\<rparr>;
          footer = footer\<lparr>creator_version :=
                     bswap_uint32 (push_bit 16 (ucast (ae_rufus_version0 env)) OR
                                   ucast (ae_rufus_version1 env))\<rparr>;
          footer = footer\<lparr>creator_host_os := VHD_FOOTER_CREATOR_HOST_OS_WINDOWS\<rparr>;
          footer = footer\<lparr>original_size := bswap_uint64 li\<rparr>;
          footer = footer\<lparr>current_size := original_size footer\<rparr>;
          footer = footer\<lparr>disk_type := bswap_uint32 VHD_FOOTER_TYPE_FIXED_HARD_DISK\<rparr>;
          footer = (case ae_UuidCreate env of
                      Some (status_ok, uuid) \<Rightarrow> footer\<lparr>unique_id := take 16 (uuid @ replicate 16 0)\<rparr>
                    | None \<Rightarrow> footer);
          (cyls, hds, sectorsPerTrack) = compute_chs (total_sectors li);
          footer = footer\<lparr>cylinders := bswap_uint16 cyls\<rparr>;
          footer = footer\<lparr>heads := hds\<rparr>;
          footer = footer\<lparr>sectors := sectorsPerTrack\<rparr>
      in footer)"

text \<open>Lines 198 to 201: the checksum, over the record as it stands, stored byte-swapped.\<close>

definition build_footer :: "append_env \<Rightarrow> 64 word \<Rightarrow> vhd_footer" where
  "build_footer env li =
     (let footer = fill_footer env li;
          checksum = byte_sum (footer_bytes footer)
      in footer\<lparr>checksum := bswap_uint32 (NOT checksum)\<rparr>)"

text \<open>
  \<^verbatim>\<open>AppendVHDFooter\<close> on a file whose content is \<open>file\<close>: the return value, the content
  of the file afterwards and the lines logged.
\<close>

definition AppendVHDFooter :: "append_env \<Rightarrow> byte list \<Rightarrow> bool \<times> byte list \<times> log_msg list" where
  "AppendVHDFooter env file =
     (if \<not> ae_open_seek_ok env then (False, file, [Could_not_open_image])
      else if \<not> ae_calloc_ok env then (False, file, [Could_not_allocate_VHD_footer])
      else
        let li = word_of_nat (length file) :: 64 word;
            footer = build_footer env li;
            lg = (case ae_UuidCreate env of
                    Some (True, uuid) \<Rightarrow> []
                  | _ \<Rightarrow> [Could_not_set_VHD_UUID]);
            file' = file @ take (ae_written env) (footer_bytes footer)
        in if \<not> ae_write_ok env \<or> ae_written env \<noteq> 512
           then (False, file', lg @ [Could_not_write_VHD_footer])
           else (True, file', lg))"

subsection \<open>The checksum test of \<^verbatim>\<open>IsHDImage\<close>\<close>

text \<open>
  Lines 297 to 302: \<^verbatim>\<open>old_checksum\<close> and the recomputed \<^verbatim>\<open>checksum\<close>, for the footer
  read from the file.
\<close>

definition old_checksum :: "vhd_footer \<Rightarrow> 32 word" where
  "old_checksum footer = bswap_uint32 (checksum footer)"

definition new_checksum :: "vhd_footer \<Rightarrow> 32 word" where
  "new_checksum footer = NOT (byte_sum (footer_bytes (footer\<lparr>checksum := 0\<rparr>)))"

definition checksum_matches :: "vhd_footer \<Rightarrow> bool" where
  "checksum_matches footer \<longleftrightarrow> new_checksum footer = old_checksum footer"

section \<open>Classification of an image file\<close>

datatype bled_compression_type =
    BLED_COMPRESSION_NONE
  | BLED_COMPRESSION_XZ
  | BLED_COMPRESSION_GZIP
  | BLED_COMPRESSION_LZMA
  | BLED_COMPRESSION_BZIP2
  | BLED_COMPRESSION_LZW

text \<open>
  The global \<^verbatim>\<open>iso_report\<close> (its type is declared in \<^verbatim>\<open>rufus.h\<close>), with the four
  fields \<^verbatim>\<open>vhd.c\<close> reads or writes. It outlives the calls: each function takes the
  report as it finds it and returns it as it leaves it.
\<close>

record img_report =
  compression_type :: bled_compression_type
  is_bootable_img :: bool
  projected_size :: "64 word"
  is_vhd :: bool

definition blah :: "(string \<times> bled_compression_type) list" where
  "blah =
     [(''.xz'', BLED_COMPRESSION_XZ),
      (''.gz'', BLED_COMPRESSION_GZIP),
      (''.lzma'', BLED_COMPRESSION_LZMA),
      (''.bz2'', BLED_COMPRESSION_BZIP2),
      (''.Z'', BLED_COMPRESSION_LZW)]"

text \<open>
  \<^verbatim>\<open>for (p = (char*)&path[strlen(path)-1]; (*p != '.') && (p != path); p--);\<close>
  with \<^verbatim>\<open>p\<close> as an index into \<^verbatim>\<open>path\<close>: the index the loop stops at when it is
  entered at index \<open>p\<close>.
\<close>

fun scan_back :: "string \<Rightarrow> nat \<Rightarrow> nat" where
  "scan_back path 0 = 0"
| "scan_back path (Suc p) =
     (if path ! Suc p \<noteq> CHR ''.'' then scan_back path p else Suc p)"

text \<open>
  The loop over \<^verbatim>\<open>blah\<close>: the type of the first entry whose \<^verbatim>\<open>ext\<close> is \<^verbatim>\<open>strcmp\<close>-equal
  to the string at \<^verbatim>\<open>p\<close>.
\<close>

fun match_ext :: "string \<Rightarrow> (string \<times> bled_compression_type) list \<Rightarrow> bled_compression_type option" where
  "match_ext p [] = None"
| "match_ext p ((ext, type) # rest) = (if p = ext then Some type else match_ext p rest)"

text \<open>
  \<^verbatim>\<open>IsCompressedBootableImage\<close>: the return value and the report. On the empty path
  the C code reads \<^verbatim>\<open>path[-1]\<close> and walks down from there; its behaviour is undefined
  and the model has no result (\<open>None\<close>).
\<close>

definition IsCompressedBootableImage :: "string \<Rightarrow> img_report \<Rightarrow> (bool \<times> img_report) option" where
  "IsCompressedBootableImage path iso_report =
     (if path = [] then None
      else
        let iso_report = iso_report\<lparr>compression_type := BLED_COMPRESSION_NONE\<rparr>;
            p = scan_back path (length path - 1)
        in if p = 0 then Some (False, iso_report)
           else case match_ext (drop p path) blah of
                  Some type \<Rightarrow> Some (True, iso_report\<lparr>compression_type := type\<rparr>)
                | None \<Rightarrow> Some (False, iso_report))"

text \<open>
  What \<^verbatim>\<open>IsHDImage\<close> takes from its surroundings: whether \<^verbatim>\<open>CreateFileU\<close> gives a
  handle, the verdict of \<^verbatim>\<open>AnalyzeMBR\<close> (defined elsewhere) on the open file, and whether
  \<^verbatim>\<open>GetFileSizeEx\<close>, \<^verbatim>\<open>malloc\<close>, \<^verbatim>\<open>SetFilePointerEx\<close> and \<^verbatim>\<open>ReadFile\<close> succeed.
\<close>

record hd_env =
  he_CreateFileU_ok :: bool
  he_AnalyzeMBR :: "byte list \<Rightarrow> bool"
  he_GetFileSizeEx_ok :: bool
  he_malloc_ok :: bool
  he_SetFilePointerEx_ok :: bool
  he_ReadFile_ok :: bool

text \<open>
  \<^verbatim>\<open>IsHDImage\<close> on a file whose content is \<open>file\<close>: the report it leaves and the lines
  it logs; the \<^verbatim>\<open>BOOL\<close> it returns is \<open>is_bootable_img\<close> of that report. \<^verbatim>\<open>ReadFile\<close>
  reads the bytes from offset \<^verbatim>\<open>ptr\<close> on, at most 512 of them.
\<close>

definition IsHDImage :: "hd_env \<Rightarrow> string \<Rightarrow> byte list \<Rightarrow> img_report \<Rightarrow> (img_report \<times> log_msg list) option" where
  "IsHDImage env path file iso_report =
     (if \<not> he_CreateFileU_ok env then Some (iso_report, [Could_not_open_image])
      else case IsCompressedBootableImage path iso_report of
        None \<Rightarrow> None
      | Some (r, iso_report) \<Rightarrow>
          let iso_report = iso_report\<lparr>is_bootable_img := r\<rparr>;
              iso_report =
                (if compression_type iso_report = BLED_COMPRESSION_NONE
                 then iso_report\<lparr>is_bootable_img := he_AnalyzeMBR env file\<rparr>
                 else iso_report)
          in if \<not> he_GetFileSizeEx_ok env then Some (iso_report, [Could_not_get_image_size])
             else
               let iso_report = iso_report\<lparr>projected_size := word_of_nat (length file)\<rparr>;
                   size = 512 :: 32 word
               in if compression_type iso_report = BLED_COMPRESSION_NONE \<and>
                     projected_size iso_report \<ge> ucast (512 + size)
                  then
                    let ptr = projected_size iso_report - ucast size;
                        buf = take 512 (drop (unat ptr) file)
                    in if \<not> he_malloc_ok env \<or> \<not> he_SetFilePointerEx_ok env \<or>
                          \<not> he_ReadFile_ok env \<or> length buf \<noteq> 512
                       then Some (iso_report, [Could_not_read_VHD_footer])
                       else
                         let footer = footer_of_bytes buf
                         in if cookie footer = conectix_str
                            then
                              let iso_report = iso_report\<lparr>projected_size := projected_size iso_report - 512\<rparr>
                              in if bswap_uint32 (file_format_version footer) \<noteq> VHD_FOOTER_FILE_FORMAT_V1_0 \<or>
                                    bswap_uint32 (disk_type footer) \<noteq> VHD_FOOTER_TYPE_FIXED_HARD_DISK
                                 then Some (iso_report\<lparr>is_bootable_img := False\<rparr>,
                                            [Unsupported_type_of_VHD_image])
                                 else
                                   let lg = (if new_checksum footer \<noteq> old_checksum footer
                                             then [VHD_footer_seems_corrupted (old_checksum footer) (new_checksum footer)]
                                             else [])
                                   in Some (iso_report\<lparr>is_vhd := True\<rparr>,
                                            lg @ [Image_is_a_Fixed_Hard_Disk_VHD_file])
                            else Some (iso_report, [])
                  else Some (iso_report, []))"

section \<open>Extraction from a WIM image\<close>

datatype reg_root = REGKEY_HKCU | REGKEY_HKLM

datatype backend = Backend_7z | Backend_API

definition MAX_PATH :: nat where
  "MAX_PATH = 260"

text \<open>
  The static variables \<^verbatim>\<open>has_wimgapi\<close>, \<^verbatim>\<open>has_7z\<close> and \<^verbatim>\<open>sevenzip_path\<close>, together with
  what the functions do to the outside: the lines logged, the number of
  \<^verbatim>\<open>UpdateProgress(OP_FINALIZE, -1.0f)\<close> calls made, and (for the record only) the
  backend functions entered so far, in order.
\<close>

record wim_state =
  has_wimgapi :: bool
  has_7z :: bool
  sevenzip_path :: string
  wim_log :: "log_msg list"
  progress_finalized :: nat
  attempts :: "backend list"

text \<open>
  What the functions take from their surroundings. \<^verbatim>\<open>GetRegistryKeyStr\<close> and the
  macros \<^verbatim>\<open>safe_strcpy\<close> and \<^verbatim>\<open>safe_strcat\<close> are declared in headers that are not part
  of \<^verbatim>\<open>vhd.c\<close> and are parameters here: \<open>we_GetRegistryKeyStr root buf\<close> is the return
  value and the content of the buffer afterwards, \<open>we_safe_strcpy n src\<close> the content of
  a buffer of \<open>n\<close> bytes after the copy and \<open>we_safe_strcat n dst src\<close> its content after
  the concatenation. \<open>we_GetProcAddress\<close> tells whether \<^verbatim>\<open>PF_INIT\<close> finds an entry point,
  \<open>we_access_7z\<close> whether \<^verbatim>\<open>_access\<close> finds the file when \<^verbatim>\<open>Get7ZipPath\<close> asks,
  \<open>we_access_extracted\<close> whether it does after the child process has gone;
  \<open>we_7z_exits\<close> tells whether the child process ever ends
  (\<^verbatim>\<open>WaitForSingleObject(pi.hProcess, INFINITE)\<close> waits for it without limit). The
  others are the success of the call they name.
\<close>

record wim_env =
  we_GetProcAddress :: "wim_proc \<Rightarrow> bool"
  we_GetRegistryKeyStr :: "reg_root \<Rightarrow> string \<Rightarrow> bool \<times> string"
  we_safe_strcpy :: "nat \<Rightarrow> string \<Rightarrow> string"
  we_safe_strcat :: "nat \<Rightarrow> string \<Rightarrow> string \<Rightarrow> string"
  we_access_7z :: "string \<Rightarrow> bool"
  we_CreateProcessU_ok :: bool
  we_7z_exits :: bool
  we_access_extracted :: "string \<Rightarrow> bool"
  we_rename_ok :: bool
  we_GetTempPathW_ok :: bool
  we_WIMCreateFile_ok :: bool
  we_WIMSetTemporaryPath_ok :: bool
  we_WIMLoadImage_ok :: bool
  we_WIMExtractImagePath_ok :: bool

definition uprintf :: "log_msg \<Rightarrow> wim_state \<Rightarrow> wim_state" where
  "uprintf m st = st\<lparr>wim_log := wim_log st @ [m]\<rparr>"

definition UpdateProgress :: "wim_state \<Rightarrow> wim_state" where
  "UpdateProgress st = st\<lparr>progress_finalized := Suc (progress_finalized st)\<rparr>"

definition entered :: "backend \<Rightarrow> wim_state \<Rightarrow> wim_state" where
  "entered b st = st\<lparr>attempts := attempts st @ [b]\<rparr>"

definition Get7ZipPath :: "wim_env \<Rightarrow> wim_state \<Rightarrow> bool \<times> wim_state" where
  "Get7ZipPath env st =
     (let (found, buf) = we_GetRegistryKeyStr env REGKEY_HKCU (sevenzip_path st);
          (found, buf) = (if found then (found, buf) else we_GetRegistryKeyStr env REGKEY_HKLM buf)
      in if found
         then
           let buf = we_safe_strcat env MAX_PATH buf (CHR 0x5C # ''7z.exe'')
           in (we_access_7z env buf, st\<lparr>sevenzip_path := buf\<rparr>)
         else (False, st\<lparr>sevenzip_path := buf\<rparr>))"

definition WimExtractCheck :: "wim_env \<Rightarrow> wim_state \<Rightarrow> bool \<times> wim_state" where
  "WimExtractCheck env st =
     (let st = st\<lparr>has_wimgapi :=
                   we_GetProcAddress env WIMCreateFile \<and> we_GetProcAddress env WIMSetTemporaryPath \<and>
                   we_GetProcAddress env WIMLoadImage \<and> we_GetProcAddress env WIMExtractImagePath \<and>
                   we_GetProcAddress env WIMCloseHandle\<rparr>;
          (r, st) = Get7ZipPath env st;
          st = st\<lparr>has_7z := r\<rparr>;
          st = uprintf (WIM_extraction_methods_supported (has_7z st) (has_wimgapi st)) st
      in (has_wimgapi st \<or> has_7z st, st))"

text \<open>\<^verbatim>\<open>PF_INIT_OR_OUT\<close>, five times: the first entry point that is not found, if any.\<close>

fun first_missing :: "wim_env \<Rightarrow> wim_proc list \<Rightarrow> wim_proc option" where
  "first_missing env [] = None"
| "first_missing env (p # ps) = (if we_GetProcAddress env p then first_missing env ps else Some p)"

text \<open>
  The label \<^verbatim>\<open>out\<close> of \<^verbatim>\<open>WimExtractFile_API\<close>, reached with \<open>opened\<close> telling whether
  \<^verbatim>\<open>hImage\<close> or \<^verbatim>\<open>hWim\<close> is not \<^verbatim>\<open>NULL\<close>.
\<close>

definition api_out :: "bool \<Rightarrow> string \<Rightarrow> bool \<Rightarrow> wim_state \<Rightarrow> bool \<times> wim_state" where
  "api_out opened wim_image r st = (r, if opened then uprintf (Closing wim_image) st else st)"

definition WimExtractFile_API :: "wim_env \<Rightarrow> wim_state \<Rightarrow> string \<Rightarrow> 32 word \<Rightarrow> string \<Rightarrow> string \<Rightarrow> bool \<times> wim_state" where
  "WimExtractFile_API env st wim_image index src dst =
     (let st = entered Backend_API st
      in case first_missing env
                [WIMCreateFile, WIMSetTemporaryPath, WIMLoadImage, WIMExtractImagePath, WIMCloseHandle] of
           Some p \<Rightarrow> api_out False wim_image False (uprintf (Unable_to_locate p) st)
         | None \<Rightarrow>
             let st = uprintf (Opening_API wim_image index) st
             in if \<not> we_GetTempPathW_ok env
                then api_out False wim_image False (uprintf Could_not_fetch_temp_path st)
                else if \<not> we_WIMCreateFile_ok env
                then api_out False wim_image False (uprintf Could_not_access_image st)
                else if \<not> we_WIMSetTemporaryPath_ok env
                then api_out True wim_image False (uprintf Could_not_set_temp_path st)
                else if \<not> we_WIMLoadImage_ok env
                then api_out True wim_image False (uprintf Could_not_set_index st)
                else
                  let st = uprintf (Extracting dst src) st
                  in if \<not> we_WIMExtractImagePath_ok env
                     then api_out True wim_image False (uprintf Could_not_extract_file st)
                     else api_out True wim_image True (UpdateProgress st))"

text \<open>
  \<^verbatim>\<open>for (i=safe_strlen(tmpdst); i>0; i--) if (tmpdst[i] == '\\') break;\<close>
  entered at index \<open>i\<close>. At \<open>i = length tmpdst\<close> the character read is the terminating
  zero.
\<close>

fun last_backslash :: "string \<Rightarrow> nat \<Rightarrow> nat" where
  "last_backslash tmpdst 0 = 0"
| "last_backslash tmpdst (Suc i) =
     (if Suc i < length tmpdst \<and> tmpdst ! Suc i = CHR 0x5C then Suc i
      else last_backslash tmpdst i)"

text \<open>
  Lines 407 to 412: \<^verbatim>\<open>tmpdst\<close> is \<^verbatim>\<open>dst\<close> cut at its last backslash. Line 426: the file
  \<^verbatim>\<open>7z\<close> is expected to leave there.
\<close>

definition tmpdst_dir :: "wim_env \<Rightarrow> string \<Rightarrow> string" where
  "tmpdst_dir env dst =
     (let tmpdst = we_safe_strcpy env MAX_PATH dst;
          i = last_backslash tmpdst (length tmpdst)
      in take i tmpdst)"

definition tmpdst_file :: "wim_env \<Rightarrow> string \<Rightarrow> string" where
  "tmpdst_file env dst = we_safe_strcat env MAX_PATH (tmpdst_dir env dst) (CHR 0x5C # ''bootmgfw.efi'')"

text \<open>
  \<^verbatim>\<open>WimExtractFile_7z\<close>. There is no result (\<open>None\<close>) when the child process never
  ends, for then the function never returns.
\<close>

definition WimExtractFile_7z :: "wim_env \<Rightarrow> wim_state \<Rightarrow> string \<Rightarrow> 32 word \<Rightarrow> string \<Rightarrow> string \<Rightarrow> (bool \<times> wim_state) option" where
  "WimExtractFile_7z env st wim_image index src dst =
     (let st = entered Backend_7z st;
          st = uprintf (Opening_7z wim_image index) st;
          tmpdst = tmpdst_dir env dst;
          st = uprintf (Extracting dst src) st
      in if \<not> we_CreateProcessU_ok env then Some (False, uprintf Could_not_launch_7z st)
         else if \<not> we_7z_exits env then None
         else
           let st = UpdateProgress st;
               tmpdst = tmpdst_file env dst
           in if \<not> we_access_extracted env tmpdst then Some (False, uprintf (Did_not_extract tmpdst) st)
              else if \<not> we_rename_ok env then Some (False, uprintf (Could_not_rename tmpdst dst) st)
              else Some (True, st))"

text \<open>
  \<^verbatim>\<open>WimExtractFile\<close> (its argument \<^verbatim>\<open>image\<close> is \<open>wim_image\<close> here). A \<^verbatim>\<open>const char*\<close> argument is \<open>None\<close> when it is \<^verbatim>\<open>NULL\<close>. The
  conditions are evaluated from left to right and as far as C's \<^verbatim>\<open>&&\<close> and \<^verbatim>\<open>||\<close>
  evaluate them.
\<close>

definition WimExtractFile :: "wim_env \<Rightarrow> wim_state \<Rightarrow> string option \<Rightarrow> 32 word \<Rightarrow> string option \<Rightarrow> string option \<Rightarrow> (bool \<times> wim_state) option" where
  "WimExtractFile env st wim_image index src dst =
     (let (no_method, st) =
            (if \<not> has_wimgapi st \<and> \<not> has_7z st
             then (let (r, st) = WimExtractCheck env st in (\<not> r, st))
             else (False, st))
      in if no_method then Some (False, st)
         else case (wim_image, src, dst) of
           (Some wim_image, Some src, Some dst) \<Rightarrow>
             (if has_7z st
              then case WimExtractFile_7z env st wim_image index src dst of
                     None \<Rightarrow> None
                   | Some (True, st) \<Rightarrow> Some (True, st)
                   | Some (False, st) \<Rightarrow>
                       (if has_wimgapi st then Some (WimExtractFile_API env st wim_image index src dst)
                        else Some (False, st))
              else if has_wimgapi st then Some (WimExtractFile_API env st wim_image index src dst)
              else Some (False, st))
         | _ \<Rightarrow> Some (False, st))"

section \<open>Notions used to state the properties\<close>

text \<open>The footer \<^verbatim>\<open>IsHDImage\<close> reads: the last 512 bytes of the file.\<close>

definition trailing_footer :: "byte list \<Rightarrow> vhd_footer" where
  "trailing_footer file = footer_of_bytes (drop (length file - 512) file)"

text \<open>The test of lines 290 and 291 passes: version 1.0 and a fixed hard disk.\<close>

definition supported_fixed_disk :: "vhd_footer \<Rightarrow> bool" where
  "supported_fixed_disk footer \<longleftrightarrow>
     bswap_uint32 (file_format_version footer) = VHD_FOOTER_FILE_FORMAT_V1_0 \<and>
     bswap_uint32 (disk_type footer) = VHD_FOOTER_TYPE_FIXED_HARD_DISK"

text \<open>
  The 512 bytes \<open>ft\<close> with the checksum field overwritten by the checksum of the rest,
  stored as line 201 stores it.
\<close>

definition repair_checksum :: "byte list \<Rightarrow> byte list" where
  "repair_checksum ft =
     (let footer = footer_of_bytes ft
      in footer_bytes (footer\<lparr>checksum := bswap_uint32 (new_checksum footer)\<rparr>))"

text \<open>Every call \<^verbatim>\<open>IsHDImage\<close> makes to the system succeeds.\<close>

definition hd_io_ok :: "hd_env \<Rightarrow> bool" where
  "hd_io_ok env \<longleftrightarrow>
     he_CreateFileU_ok env \<and> he_GetFileSizeEx_ok env \<and> he_malloc_ok env \<and>
     he_SetFilePointerEx_ok env \<and> he_ReadFile_ok env"

section \<open>Concrete inputs\<close>

text \<open>A report with every byte zero, as \<^verbatim>\<open>memset(&iso_report, 0, sizeof(iso_report))\<close> leaves it.\<close>

definition memset_report :: img_report where
  "memset_report =
     \<lparr> compression_type = BLED_COMPRESSION_NONE, is_bootable_img = False,
       projected_size = 0, is_vhd = False \<rparr>"

definition ex_append_env :: append_env where
  "ex_append_env =
     \<lparr> ae_open_seek_ok = True, ae_calloc_ok = True, ae_time32 = 1400000000,
       ae_rufus_version0 = 1, ae_rufus_version1 = 4, ae_UuidCreate = None,
       ae_write_ok = True, ae_written = 512 \<rparr>"

definition ex_hd_env :: hd_env where
  "ex_hd_env =
     \<lparr> he_CreateFileU_ok = True, he_AnalyzeMBR = (\<lambda>file. True), he_GetFileSizeEx_ok = True,
       he_malloc_ok = True, he_SetFilePointerEx_ok = True, he_ReadFile_ok = True \<rparr>"

definition ex_payload :: "byte list" where
  "ex_payload = replicate 512 0"

text \<open>A payload of 512 bytes followed by the footer \<^verbatim>\<open>AppendVHDFooter\<close> builds for it.\<close>

definition ex_vhd_file :: "byte list" where
  "ex_vhd_file = ex_payload @ footer_bytes (build_footer ex_append_env 512)"

text \<open>The same footer before its checksum is stored: the checksum field is zero.\<close>

definition ex_unsummed_footer :: "byte list" where
  "ex_unsummed_footer = footer_bytes (fill_footer ex_append_env 512)"

text \<open>The same file with the disk type of a dynamic disk (3).\<close>

definition ex_dynamic_file :: "byte list" where
  "ex_dynamic_file =
     ex_payload @ footer_bytes ((build_footer ex_append_env 512)\<lparr>disk_type := bswap_uint32 3\<rparr>)"

text \<open>The same file with a data offset of zero.\<close>

definition ex_offset_file :: "byte list" where
  "ex_offset_file =
     ex_payload @ footer_bytes ((build_footer ex_append_env 512)\<lparr>data_offset := 0\<rparr>)"

text \<open>
  A system with \<^verbatim>\<open>wimgapi.dll\<close> complete and no 7-Zip in the registry, where the child
  process runs and leaves nothing behind.
\<close>

definition ex_wim_env :: wim_env where
  "ex_wim_env =
     \<lparr> we_GetProcAddress = (\<lambda>p. True),
       we_GetRegistryKeyStr = (\<lambda>root buf. (False, buf)),
       we_safe_strcpy = (\<lambda>n src. take (n - 1) src),
       we_safe_strcat = (\<lambda>n dst src. dst @ take (n - 1 - length dst) src),
       we_access_7z = (\<lambda>p. False),
       we_CreateProcessU_ok = True,
       we_7z_exits = True,
       we_access_extracted = (\<lambda>p. False),
       we_rename_ok = True,
       we_GetTempPathW_ok = True,
       we_WIMCreateFile_ok = True,
       we_WIMSetTemporaryPath_ok = True,
       we_WIMLoadImage_ok = True,
       we_WIMExtractImagePath_ok = True \<rparr>"

definition ex_unprobed :: wim_state where
  "ex_unprobed =
     \<lparr> has_wimgapi = False, has_7z = False, sevenzip_path = [], wim_log = [],
       progress_finalized = 0, attempts = [] \<rparr>"

definition ex_probed :: wim_state where
  "ex_probed =
     \<lparr> has_wimgapi = True, has_7z = True, sevenzip_path = ''7z.exe'', wim_log = [],
       progress_finalized = 0, attempts = [] \<rparr>"

section \<open>Bytes: lemmas\<close>

lemma length_word_bytes [simp]: "length (word_bytes n w) = n"
  by (induction n arbitrary: w) simp_all

lemma word_bytes_numeral:
  "word_bytes (numeral k) w = ucast w # word_bytes (pred_numeral k) (drop_bit 8 w)"
  by (simp add: numeral_eq_Suc)

lemma byte_step:
  "ucast (ucast w :: byte) OR push_bit 8 (take_bit k (drop_bit 8 w)) = take_bit (8 + k) (w :: 'a::len word)"
  by (rule bit_word_eqI) (auto simp add: bit_simps)

lemma word_le_word_bytes: "word_le (word_bytes n w) = take_bit (8 * n) (w :: 'a::len word)"
  by (induction n arbitrary: w) (simp_all add: byte_step)

lemma bit_word_le_bound: "bit (word_le bs :: 'a::len word) n \<Longrightarrow> n < 8 * length bs"
proof (induction bs arbitrary: n)
  case Nil
  then show ?case by simp
next
  case (Cons b bs)
  from Cons.prems have "bit b n \<or> (8 \<le> n \<and> bit (word_le bs :: 'a word) (n - 8))"
    by (auto simp add: bit_simps)
  then show ?case
  proof
    assume "bit b n"
    then have "n < 8" by (auto dest: bit_imp_le_length)
    then show ?thesis by simp
  next
    assume "8 \<le> n \<and> bit (word_le bs :: 'a word) (n - 8)"
    with Cons.IH [of "n - 8"] show ?thesis by auto
  qed
qed

lemma word_bytes_word_le:
  "8 * length bs \<le> LENGTH('a) \<Longrightarrow> word_bytes (length bs) (word_le bs :: 'a::len word) = bs"
proof (induction bs)
  case Nil
  show ?case by simp
next
  case (Cons b bs)
  have low: "ucast (ucast b OR push_bit 8 (word_le bs) :: 'a word) = b"
    using Cons.prems by - (rule bit_word_eqI, auto simp add: bit_simps)
  have high: "drop_bit 8 (ucast b OR push_bit 8 (word_le bs) :: 'a word) = word_le bs"
    using Cons.prems
    by - (rule bit_word_eqI, auto simp add: bit_simps dest: bit_imp_le_length bit_word_le_bound)
  from Cons low high show ?case by simp
qed

lemma word_le_bytes16 [simp]: "word_le (word_bytes 2 w) = (w :: 16 word)"
  by (simp add: word_le_word_bytes take_bit_word_eq_self)

lemma word_le_bytes32 [simp]: "word_le (word_bytes 4 w) = (w :: 32 word)"
  by (simp add: word_le_word_bytes take_bit_word_eq_self)

lemma word_le_bytes64 [simp]: "word_le (word_bytes 8 w) = (w :: 64 word)"
  by (simp add: word_le_word_bytes take_bit_word_eq_self)

lemma bswap_uint32_involution: "bswap_uint32 (bswap_uint32 x) = x"
proof -
  have "word_bytes 4 (word_le (rev (word_bytes 4 x)) :: 32 word) = rev (word_bytes 4 x)"
    using word_bytes_word_le [of "rev (word_bytes 4 x)", where 'a=32] by simp
  then show ?thesis
    by (simp add: bswap_uint32_def)
qed

section \<open>The footer: lemmas\<close>

lemma length_footer_bytes: "footer_wf f \<Longrightarrow> length (footer_bytes f) = 512"
  by (simp add: footer_wf_def footer_bytes_def)

lemma footer_of_bytes_footer_bytes:
  assumes "footer_wf f"
  shows "footer_of_bytes (footer_bytes f) = f"
  using assms by (simp add: footer_wf_def footer_bytes_def footer_of_bytes_def)

lemma footer_of_bytes_wf: "length bs = 512 \<Longrightarrow> footer_wf (footer_of_bytes bs)"
  by (simp add: footer_wf_def footer_of_bytes_def)

lemma fill_footer_wf: "footer_wf (fill_footer env li)"
  by (auto simp add: fill_footer_def footer_wf_def calloc_footer_def Let_def conectix_str_def
      VHD_FOOTER_COOKIE_def VHD_FOOTER_CREATOR_HOST_OS_WINDOWS_def c_str_def
      split: option.split prod.split)

lemma fill_footer_checksum: "checksum (fill_footer env li) = 0"
  by (simp add: fill_footer_def calloc_footer_def Let_def split: option.split prod.split)

lemma fill_footer_cookie: "cookie (fill_footer env li) = conectix_str"
  by (simp add: fill_footer_def Let_def split: option.split prod.split)

lemma fill_footer_supported: "supported_fixed_disk (fill_footer env li)"
  by (simp add: supported_fixed_disk_def fill_footer_def Let_def
      bswap_uint32_involution split: option.split prod.split)

lemma build_footer_wf: "footer_wf (build_footer env li)"
  using fill_footer_wf [of env li] by (simp add: build_footer_def footer_wf_def Let_def)

lemma build_footer_cookie: "cookie (build_footer env li) = conectix_str"
  by (simp add: build_footer_def fill_footer_cookie Let_def)

lemma build_footer_supported: "supported_fixed_disk (build_footer env li)"
  using fill_footer_supported [of env li]
  by (simp add: supported_fixed_disk_def build_footer_def Let_def)

lemma checksum_repaired:
  assumes "footer_wf f"
  shows "checksum_matches (footer_of_bytes (footer_bytes (f\<lparr>checksum := bswap_uint32 (new_checksum f)\<rparr>)))"
proof -
  have "footer_wf (f\<lparr>checksum := bswap_uint32 (new_checksum f)\<rparr>)"
    using assms by (simp add: footer_wf_def)
  then show ?thesis
    by (simp add: footer_of_bytes_footer_bytes checksum_matches_def new_checksum_def
        old_checksum_def bswap_uint32_involution)
qed

lemma footer_of_bytes_update_reserved:
  assumes "85 \<le> i"
  shows "cookie (footer_of_bytes (ft[i := b])) = cookie (footer_of_bytes ft)"
    and "file_format_version (footer_of_bytes (ft[i := b])) = file_format_version (footer_of_bytes ft)"
    and "disk_type (footer_of_bytes (ft[i := b])) = disk_type (footer_of_bytes ft)"
  using assms by (simp_all add: footer_of_bytes_def drop_update_swap)

lemma trailing_footer_append:
  "length ft = 512 \<Longrightarrow> trailing_footer (payload @ ft) = footer_of_bytes ft"
  by (simp add: trailing_footer_def)

lemma trailing_footer_bytes:
  "footer_wf f \<Longrightarrow> trailing_footer (payload @ footer_bytes f) = f"
  by (simp add: trailing_footer_append length_footer_bytes footer_of_bytes_footer_bytes)

lemma ex_unsummed_mismatch: "\<not> checksum_matches (fill_footer ex_append_env 512)"
  by code_simp

section \<open>Classification: lemmas\<close>

lemma match_ext_map_of: "match_ext p table = map_of table p"
  by (induction table) auto

lemma scan_back_no_dot:
  "CHR ''.'' \<notin> set path \<Longrightarrow> p < length path \<Longrightarrow> scan_back path p = 0"
proof (induction p)
  case 0
  show ?case by simp
next
  case (Suc p)
  then have "path ! Suc p \<noteq> CHR ''.''" by (metis nth_mem)
  with Suc show ?case by simp
qed

lemma scan_back_last_dot:
  assumes "CHR ''.'' \<notin> set ext" and "k \<le> length ext"
  shows "scan_back (stem @ CHR ''.'' # ext) (length stem + k) = length stem"
  using assms(2)
proof (induction k)
  case 0
  show ?case by (cases stem rule: rev_cases) (simp_all add: nth_append)
next
  case (Suc k)
  then have "k < length ext" by simp
  with assms(1) have "ext ! k \<noteq> CHR ''.''" by (metis nth_mem)
  with Suc show ?case by (simp add: nth_append)
qed

lemma IsCompressedBootableImage_ext:
  assumes "CHR ''.'' \<notin> set ext"
  shows "IsCompressedBootableImage (stem @ CHR ''.'' # ext) st =
           (if stem = [] then Some (False, st\<lparr>compression_type := BLED_COMPRESSION_NONE\<rparr>)
            else case map_of blah (CHR ''.'' # ext) of
                   Some t \<Rightarrow> Some (True, st\<lparr>compression_type := t\<rparr>)
                 | None \<Rightarrow> Some (False, st\<lparr>compression_type := BLED_COMPRESSION_NONE\<rparr>))"
  using scan_back_last_dot [OF assms order_refl, of stem]
  by (simp add: IsCompressedBootableImage_def match_ext_map_of Let_def split: option.split)

lemma IsCompressedBootableImage_no_dot:
  assumes "path \<noteq> []" and "CHR ''.'' \<notin> set path"
  shows "IsCompressedBootableImage path st = Some (False, st\<lparr>compression_type := BLED_COMPRESSION_NONE\<rparr>)"
  using assms scan_back_no_dot [of path "length path - 1"]
  by (simp add: IsCompressedBootableImage_def Let_def)

lemma disk_vhd_uncompressed:
  "IsCompressedBootableImage ''disk.vhd'' st = Some (False, st\<lparr>compression_type := BLED_COMPRESSION_NONE\<rparr>)"
  using IsCompressedBootableImage_ext [of "''vhd''" "''disk''" st] by (simp add: blah_def)

lemma size_word_ge:
  assumes "1024 \<le> n" and "n < 2 ^ 64"
  shows "(1024 :: 64 word) \<le> word_of_nat n"
  using assms by (simp add: word_le_nat_alt unat_of_nat)

lemma ptr_unat:
  assumes "1024 \<le> n" and "n < 2 ^ 64"
  shows "unat (word_of_nat n - 512 :: 64 word) = n - 512"
proof -
  have "word_of_nat n - (512 :: 64 word) = word_of_nat (n - 512)"
    using assms by (simp add: of_nat_diff)
  moreover have "unat (word_of_nat (n - 512) :: 64 word) = (n - 512) mod 2 ^ LENGTH(64)"
    by (rule unat_of_nat)
  moreover have "(n - 512) mod 2 ^ LENGTH(64) = n - 512"
    using assms by simp
  ultimately show ?thesis by (simp only:)
qed

lemma IsHDImage_uncompressed:
  assumes unc: "IsCompressedBootableImage path st = Some (False, st\<lparr>compression_type := BLED_COMPRESSION_NONE\<rparr>)"
    and io: "hd_io_ok env"
    and len: "1024 \<le> length file" "length file < 2 ^ 64"
  shows "IsHDImage env path file st =
     Some (let footer = trailing_footer file;
               base = st\<lparr>compression_type := BLED_COMPRESSION_NONE,
                         is_bootable_img := he_AnalyzeMBR env file,
                         projected_size := word_of_nat (length file)\<rparr>
           in if cookie footer = conectix_str
              then if \<not> supported_fixed_disk footer
                   then (base\<lparr>projected_size := word_of_nat (length file) - 512, is_bootable_img := False\<rparr>,
                         [Unsupported_type_of_VHD_image])
                   else (base\<lparr>projected_size := word_of_nat (length file) - 512, is_vhd := True\<rparr>,
                         (if new_checksum footer \<noteq> old_checksum footer
                          then [VHD_footer_seems_corrupted (old_checksum footer) (new_checksum footer)]
                          else []) @ [Image_is_a_Fixed_Hard_Disk_VHD_file])
              else (base, []))"
proof -
  have ge: "(1024 :: 64 word) \<le> word_of_nat (length file)"
    using len by (rule size_word_ge)
  have ptr: "unat (word_of_nat (length file) - 512 :: 64 word) = length file - 512"
    using len by (rule ptr_unat)
  show ?thesis
    using io len unfolding IsHDImage_def hd_io_ok_def trailing_footer_def supported_fixed_disk_def
    by (simp add: unc ge ptr Let_def)
qed

lemma IsHDImage_supported:
  assumes unc: "IsCompressedBootableImage path st = Some (False, st\<lparr>compression_type := BLED_COMPRESSION_NONE\<rparr>)"
    and io: "hd_io_ok env"
    and len: "1024 \<le> length file" "length file < 2 ^ 64"
    and magic: "cookie (trailing_footer file) = conectix_str"
    and sup: "supported_fixed_disk (trailing_footer file)"
  shows "map_option fst (IsHDImage env path file st) =
           Some (st\<lparr>compression_type := BLED_COMPRESSION_NONE,
                    is_bootable_img := he_AnalyzeMBR env file,
                    projected_size := word_of_nat (length file) - 512,
                    is_vhd := True\<rparr>)"
  using magic sup by (simp add: IsHDImage_uncompressed [OF unc io len] Let_def)

lemma IsHDImage_unsupported:
  assumes unc: "IsCompressedBootableImage path st = Some (False, st\<lparr>compression_type := BLED_COMPRESSION_NONE\<rparr>)"
    and io: "hd_io_ok env"
    and len: "1024 \<le> length file" "length file < 2 ^ 64"
    and magic: "cookie (trailing_footer file) = conectix_str"
    and unsup: "\<not> supported_fixed_disk (trailing_footer file)"
  shows "IsHDImage env path file st =
           Some (st\<lparr>compression_type := BLED_COMPRESSION_NONE,
                    is_bootable_img := False,
                    projected_size := word_of_nat (length file) - 512\<rparr>,
                 [Unsupported_type_of_VHD_image])"
  using magic unsup by (simp add: IsHDImage_uncompressed [OF unc io len] Let_def)

lemma ex_file_lengths:
  "length ex_vhd_file = 1024" "length ex_dynamic_file = 1024" "length ex_offset_file = 1024"
  "length ex_unsummed_footer = 512"
  using build_footer_wf [of ex_append_env 512] fill_footer_wf [of ex_append_env 512]
  by (simp_all add: ex_vhd_file_def ex_dynamic_file_def ex_offset_file_def ex_unsummed_footer_def
      ex_payload_def footer_bytes_def footer_wf_def)

lemma ex_hd_io_ok: "hd_io_ok ex_hd_env"
  by (simp add: hd_io_ok_def ex_hd_env_def)

section \<open>WIM extraction: lemmas\<close>

lemma WimExtractFile_API_fst:
  "fst (WimExtractFile_API env st wim_image index src dst) =
   fst (WimExtractFile_API env st' wim_image index src dst)"
  by (simp add: WimExtractFile_API_def api_out_def Let_def split: option.split)

lemma WimExtractFile_API_attempts:
  "attempts (snd (WimExtractFile_API env st wim_image index src dst)) = attempts st @ [Backend_API]"
  by (simp add: WimExtractFile_API_def api_out_def Let_def uprintf_def UpdateProgress_def entered_def
      split: option.split)

lemma WimExtractCheck_trace:
  "attempts (snd (WimExtractCheck env st)) = attempts st \<and>
   progress_finalized (snd (WimExtractCheck env st)) = progress_finalized st"
  by (simp add: WimExtractCheck_def Get7ZipPath_def Let_def uprintf_def split: prod.split)

section \<open>The properties\<close>

text \<open>
  C1. Round trip. Whatever the size \<open>li\<close> of the file (so for every size \<open>n > 0\<close>), the
  clock, the version and the UUID: the 512 bytes of the footer that \<^verbatim>\<open>AppendVHDFooter\<close>
  builds, read back as a footer and put through the checksum test of \<^verbatim>\<open>IsHDImage\<close>,
  pass it: the complement of the byte sum recomputed with the checksum field zeroed is
  the stored checksum.
\<close>

theorem footer_round_trip:
  "checksum_matches (footer_of_bytes (footer_bytes (build_footer env li)))"
proof -
  let ?f = "fill_footer env li"
  have zero: "?f\<lparr>checksum := 0\<rparr> = ?f"
    using fill_footer_checksum [of env li] by simp
  have "checksum_matches (build_footer env li)"
    by (simp add: checksum_matches_def new_checksum_def old_checksum_def build_footer_def
        Let_def bswap_uint32_involution zero)
  then show ?thesis
    by (simp add: footer_of_bytes_footer_bytes build_footer_wf)
qed

text \<open>C1 at a file of 512 bytes.\<close>

theorem footer_round_trip_witness:
  "checksum_matches (footer_of_bytes (footer_bytes (build_footer ex_append_env 512)))"
  using footer_round_trip [of ex_append_env 512] by simp

text \<open>
  C5, as the code has it. With \<open>totalSectors\<close> exactly \<open>65535 * 16 * 63\<close> (a file of that
  many sectors) the first branch, \<^verbatim>\<open>totalSectors >= 65535 * 16 * 63\<close>, is taken: 255
  sectors per track and 16 heads. 63 sectors per track and 16 heads is the geometry one
  sector below. And for every file size whose sector count exceeds \<open>65535 * 16 * 255\<close>,
  \<open>totalSectors\<close> is clamped to \<open>65535 * 16 * 255\<close> before the geometry is computed.
\<close>

theorem chs_threshold_and_clamp:
  "total_sectors (65535 * 16 * 63 * 512) = 65535 * 16 * 63 \<and>
   compute_chs (65535 * 16 * 63) = (16191, 16, 255) \<and>
   compute_chs (65535 * 16 * 63 - 1) = (65534, 16, 63) \<and>
   (0 \<le> sint li \<and> 65535 * 16 * 255 < sint li div 512 \<longrightarrow>
      total_sectors li = 65535 * 16 * 255)"
proof -
  have a: "total_sectors (65535 * 16 * 63 * 512) = 65535 * 16 * 63"
    by (simp add: total_sectors_def signed_divide_int_def)
  have b: "compute_chs (65535 * 16 * 63) = (16191, 16, 255)"
    by (simp add: compute_chs_def)
  have c: "compute_chs (65535 * 16 * 63 - 1) = (65534, 16, 63)"
    by (simp add: compute_chs_def chs_small_def Let_def)
  have d: "total_sectors li = 65535 * 16 * 255"
    if "0 \<le> sint li" and "65535 * 16 * 255 < sint li div 512"
  proof -
    have bound: "sint li < 2 ^ 63" using sint_lt [of li] by simp
    have q: "sint li sdiv 512 = sint li div 512"
      using that(1) by (simp add: signed_divide_int_def sgn_if)
    have u: "uint (word_of_int (sint li div 512) :: 64 word) = sint li div 512"
      using that bound by (simp add: uint_word_of_int)
    have "(65535 * 16 * 255 :: 64 word) < word_of_int (sint li div 512)"
      using that(2) unfolding word_less_def u by simp
    then show ?thesis
      by (simp add: total_sectors_def q)
  qed
  from a b c d show ?thesis by blast
qed

text \<open>C5's clamp at a file of \<open>2 ^ 50\<close> bytes.\<close>

theorem chs_threshold_and_clamp_witness:
  "0 \<le> sint (1125899906842624 :: 64 word) \<and>
   65535 * 16 * 255 < sint (1125899906842624 :: 64 word) div 512 \<and>
   total_sectors 1125899906842624 = 65535 * 16 * 255"
  using chs_threshold_and_clamp [of 1125899906842624] by simp

text \<open>
  C5 as the specification states it fails: at \<open>totalSectors = 65535 * 16 * 63\<close> the
  geometry is not 63 sectors per track with 16 heads.
\<close>

theorem chs_threshold_counterexample:
  "\<not> (snd (snd (compute_chs (65535 * 16 * 63))) = 63 \<and> fst (snd (compute_chs (65535 * 16 * 63))) = 16)"
  by (simp add: compute_chs_def)

text \<open>
  C2. Footer stripping. Take a payload of \<open>P \<ge> 512\<close> bytes followed by a 512-byte footer,
  under a path whose extension names no compression, and let every system call of
  \<^verbatim>\<open>IsHDImage\<close> succeed. If the footer has the magic, version 1.0 and the fixed disk type,
  and in particular if it is the footer \<^verbatim>\<open>AppendVHDFooter\<close> has appended to the payload,
  then \<^verbatim>\<open>IsHDImage\<close> returns, the projected size it reports is \<open>P\<close> and \<^verbatim>\<open>is_vhd\<close> is
  set.
\<close>

theorem footer_stripping:
  assumes unc: "IsCompressedBootableImage path iso_report =
                  Some (False, iso_report\<lparr>compression_type := BLED_COMPRESSION_NONE\<rparr>)"
    and io: "hd_io_ok env"
    and len: "512 \<le> length payload" "length payload + 512 < 2 ^ 63"
  shows "(length ft = 512 \<and> cookie (footer_of_bytes ft) = conectix_str \<and>
          supported_fixed_disk (footer_of_bytes ft) \<longrightarrow>
            (\<exists>r lg'. IsHDImage env path (payload @ ft) iso_report = Some (r, lg') \<and>
               unat (projected_size r) = length payload \<and> is_vhd r)) \<and>
         (AppendVHDFooter aenv payload = (True, vhd_file, lg) \<longrightarrow>
            (\<exists>r lg'. IsHDImage env path vhd_file iso_report = Some (r, lg') \<and>
               unat (projected_size r) = length payload \<and> is_vhd r))"
proof -
  have gen: "\<exists>r lg'. IsHDImage env path (payload @ x) iso_report = Some (r, lg') \<and>
               unat (projected_size r) = length payload \<and> is_vhd r"
    if x: "length x = 512" "cookie (footer_of_bytes x) = conectix_str"
      "supported_fixed_disk (footer_of_bytes x)" for x
  proof -
    have l1: "1024 \<le> length (payload @ x)" and l2: "length (payload @ x) < 2 ^ 64"
      using len x(1) by simp_all
    have sz: "unat (word_of_nat (length (payload @ x)) - 512 :: 64 word) = length payload"
      using ptr_unat [OF l1 l2] x(1) by simp
    have "map_option fst (IsHDImage env path (payload @ x) iso_report) =
            Some (iso_report\<lparr>compression_type := BLED_COMPRESSION_NONE,
                     is_bootable_img := he_AnalyzeMBR env (payload @ x),
                     projected_size := word_of_nat (length (payload @ x)) - 512,
                     is_vhd := True\<rparr>)"
      using unc io l1 l2 by (rule IsHDImage_supported) (simp_all add: trailing_footer_append x)
    with sz show ?thesis by auto
  qed
  have app: "\<exists>r lg'. IsHDImage env path vhd_file iso_report = Some (r, lg') \<and>
               unat (projected_size r) = length payload \<and> is_vhd r"
    if "AppendVHDFooter aenv payload = (True, vhd_file, lg)"
  proof -
    let ?f = "build_footer aenv (word_of_nat (length payload))"
    from that have fl: "vhd_file = payload @ footer_bytes ?f"
      by (auto simp add: AppendVHDFooter_def Let_def length_footer_bytes build_footer_wf
          split: if_splits)
    have "length (footer_bytes ?f) = 512"
      and "cookie (footer_of_bytes (footer_bytes ?f)) = conectix_str"
      and "supported_fixed_disk (footer_of_bytes (footer_bytes ?f))"
      by (simp_all add: length_footer_bytes footer_of_bytes_footer_bytes build_footer_wf
          build_footer_cookie build_footer_supported)
    then show ?thesis unfolding fl by (rule gen)
  qed
  from gen [of ft] app show ?thesis by blast
qed

text \<open>
  C2 at a payload of 512 zero bytes, under the name \<^verbatim>\<open>disk.vhd\<close>: followed by the footer
  \<^verbatim>\<open>AppendVHDFooter\<close> appends, and followed by that footer with its checksum field zero.
\<close>

theorem footer_stripping_witness:
  "hd_io_ok ex_hd_env \<and> 512 \<le> length ex_payload \<and> length ex_payload + 512 < 2 ^ 63 \<and>
   (length ex_unsummed_footer = 512 \<and> cookie (footer_of_bytes ex_unsummed_footer) = conectix_str \<and>
    supported_fixed_disk (footer_of_bytes ex_unsummed_footer)) \<and>
   (\<exists>r lg'. IsHDImage ex_hd_env ''disk.vhd'' (ex_payload @ ex_unsummed_footer) memset_report = Some (r, lg') \<and>
      unat (projected_size r) = length ex_payload \<and> is_vhd r) \<and>
   AppendVHDFooter ex_append_env ex_payload = (True, ex_vhd_file, [Could_not_set_VHD_UUID]) \<and>
   (\<exists>r lg'. IsHDImage ex_hd_env ''disk.vhd'' ex_vhd_file memset_report = Some (r, lg') \<and>
      unat (projected_size r) = length ex_payload \<and> is_vhd r)"
proof -
  have len: "512 \<le> length ex_payload" "length ex_payload + 512 < 2 ^ 63"
    by (simp_all add: ex_payload_def)
  have dec: "footer_of_bytes ex_unsummed_footer = fill_footer ex_append_env 512"
    unfolding ex_unsummed_footer_def by (rule footer_of_bytes_footer_bytes) (rule fill_footer_wf)
  have ft: "length ex_unsummed_footer = 512"
    "cookie (footer_of_bytes ex_unsummed_footer) = conectix_str"
    "supported_fixed_disk (footer_of_bytes ex_unsummed_footer)"
    by (simp_all add: ex_file_lengths dec fill_footer_cookie fill_footer_supported)
  have app: "AppendVHDFooter ex_append_env ex_payload = (True, ex_vhd_file, [Could_not_set_VHD_UUID])"
    using length_footer_bytes [OF build_footer_wf, of ex_append_env 512]
    by (simp add: AppendVHDFooter_def Let_def ex_vhd_file_def) (simp add: ex_append_env_def ex_payload_def)
  from footer_stripping [OF disk_vhd_uncompressed ex_hd_io_ok len,
      where ft = ex_unsummed_footer and aenv = ex_append_env and vhd_file = ex_vhd_file
        and lg = "[Could_not_set_VHD_UUID]" and iso_report = memset_report]
    ex_hd_io_ok len ft app
  show ?thesis by blast
qed

text \<open>
  C3. A checksum mismatch is never fatal. Take a file of a payload of at least 512 bytes
  and a trailing footer \<open>ft\<close> with the magic, version 1.0 and the fixed disk type, whose
  checksum field is not the complement of the byte sum; let the path name no compression,
  every system call succeed and the verdict of \<^verbatim>\<open>AnalyzeMBR\<close> depend on the payload only.
  Then the report \<^verbatim>\<open>IsHDImage\<close> leaves (bootable flag, \<^verbatim>\<open>is_vhd\<close>, projected size) is the
  report it leaves for the same file with the correct checksum stored; \<^verbatim>\<open>is_vhd\<close> is set
  and the bootable flag is the verdict of \<^verbatim>\<open>AnalyzeMBR\<close>, not forced to false; and
  changing a byte of the reserved region (offsets 85 to 511) changes nothing in the
  report either.
\<close>

theorem checksum_mismatch_not_fatal:
  assumes unc: "IsCompressedBootableImage path iso_report =
                  Some (False, iso_report\<lparr>compression_type := BLED_COMPRESSION_NONE\<rparr>)"
    and io: "hd_io_ok env"
    and len: "length ft = 512" "512 \<le> length payload" "length payload + 512 < 2 ^ 63"
    and magic: "cookie (footer_of_bytes ft) = conectix_str"
    and sup: "supported_fixed_disk (footer_of_bytes ft)"
    and bad: "\<not> checksum_matches (footer_of_bytes ft)"
    and mbr: "\<forall>ft'. he_AnalyzeMBR env (payload @ ft') = he_AnalyzeMBR env (payload @ ft)"
  shows "checksum_matches (footer_of_bytes (repair_checksum ft)) \<and>
         map_option fst (IsHDImage env path (payload @ ft) iso_report) =
           map_option fst (IsHDImage env path (payload @ repair_checksum ft) iso_report) \<and>
         (\<exists>r lg. IsHDImage env path (payload @ ft) iso_report = Some (r, lg) \<and> is_vhd r \<and>
                  is_bootable_img r = he_AnalyzeMBR env (payload @ ft)) \<and>
         (85 \<le> i \<and> i < 512 \<longrightarrow>
            map_option fst (IsHDImage env path (payload @ ft[i := b]) iso_report) =
              map_option fst (IsHDImage env path (payload @ ft) iso_report))"
proof -
  let ?f = "footer_of_bytes ft"
  let ?g = "?f\<lparr>checksum := bswap_uint32 (new_checksum ?f)\<rparr>"
  let ?r = "iso_report\<lparr>compression_type := BLED_COMPRESSION_NONE,
                       is_bootable_img := he_AnalyzeMBR env (payload @ ft),
                       projected_size := word_of_nat (length payload + 512) - 512,
                       is_vhd := True\<rparr>"
  have fx: "repair_checksum ft = footer_bytes ?g"
    by (simp add: repair_checksum_def Let_def)
  have wf: "footer_wf ?f" using len(1) by (rule footer_of_bytes_wf)
  then have wfg: "footer_wf ?g" by (simp add: footer_wf_def)
  have flen: "length (repair_checksum ft) = 512"
    using wfg by (simp add: fx length_footer_bytes)
  have fof: "footer_of_bytes (repair_checksum ft) = ?g"
    using wfg by (simp add: fx footer_of_bytes_footer_bytes)
  have l1: "\<And>x. length x = 512 \<Longrightarrow> 1024 \<le> length (payload @ x)"
    and l2: "\<And>x. length x = 512 \<Longrightarrow> length (payload @ x) < 2 ^ 64"
    using len by simp_all
  have res: "map_option fst (IsHDImage env path (payload @ x) iso_report) = Some ?r"
    if "length x = 512" "cookie (footer_of_bytes x) = conectix_str"
       "supported_fixed_disk (footer_of_bytes x)" for x
  proof -
    have "cookie (trailing_footer (payload @ x)) = conectix_str"
      and "supported_fixed_disk (trailing_footer (payload @ x))"
      using that by (simp_all add: trailing_footer_append)
    with IsHDImage_supported [OF unc io l1 [OF that(1)] l2 [OF that(1)]]
    have "map_option fst (IsHDImage env path (payload @ x) iso_report) =
           Some (iso_report\<lparr>compression_type := BLED_COMPRESSION_NONE,
                    is_bootable_img := he_AnalyzeMBR env (payload @ x),
                    projected_size := word_of_nat (length payload + 512) - 512,
                    is_vhd := True\<rparr>)"
      using that(1) by simp
    moreover have "he_AnalyzeMBR env (payload @ x) = he_AnalyzeMBR env (payload @ ft)"
      using mbr by blast
    ultimately show ?thesis by (simp only:)
  qed
  have a: "checksum_matches (footer_of_bytes (repair_checksum ft))"
    unfolding fx using wf by (rule checksum_repaired)
  have g_magic: "cookie ?g = conectix_str" and g_sup: "supported_fixed_disk ?g"
    using magic sup by (simp_all add: supported_fixed_disk_def)
  have r1: "map_option fst (IsHDImage env path (payload @ ft) iso_report) = Some ?r"
    using len(1) magic sup by (rule res)
  have r2: "map_option fst (IsHDImage env path (payload @ repair_checksum ft) iso_report) = Some ?r"
    using flen g_magic g_sup unfolding fof [symmetric] by (rule res)
  have b: "map_option fst (IsHDImage env path (payload @ ft) iso_report) =
           map_option fst (IsHDImage env path (payload @ repair_checksum ft) iso_report)"
    by (simp only: r1 r2)
  have c: "map_option fst (IsHDImage env path (payload @ ft[i := b]) iso_report) =
              map_option fst (IsHDImage env path (payload @ ft) iso_report)" if "85 \<le> i"
  proof -
    have "map_option fst (IsHDImage env path (payload @ ft[i := b]) iso_report) = Some ?r"
      using len(1) magic sup that
      by (intro res) (simp_all add: supported_fixed_disk_def footer_of_bytes_update_reserved)
    then show ?thesis by (simp only: r1)
  qed
  have d: "\<exists>r lg. IsHDImage env path (payload @ ft) iso_report = Some (r, lg) \<and> is_vhd r \<and>
                  is_bootable_img r = he_AnalyzeMBR env (payload @ ft)"
    using r1 by auto
  from a b c d show ?thesis by blast
qed

text \<open>
  C3 at the footer of a 512-byte payload whose checksum field was left zero, and at a
  change of the byte at offset 100.
\<close>

theorem checksum_mismatch_not_fatal_witness:
  "length ex_unsummed_footer = 512 \<and>
   cookie (footer_of_bytes ex_unsummed_footer) = conectix_str \<and>
   supported_fixed_disk (footer_of_bytes ex_unsummed_footer) \<and>
   \<not> checksum_matches (footer_of_bytes ex_unsummed_footer) \<and>
   checksum_matches (footer_of_bytes (repair_checksum ex_unsummed_footer)) \<and>
   map_option fst (IsHDImage ex_hd_env ''disk.vhd'' (ex_payload @ ex_unsummed_footer) memset_report) =
     map_option fst (IsHDImage ex_hd_env ''disk.vhd'' (ex_payload @ repair_checksum ex_unsummed_footer) memset_report) \<and>
   (\<exists>r lg. IsHDImage ex_hd_env ''disk.vhd'' (ex_payload @ ex_unsummed_footer) memset_report = Some (r, lg) \<and>
      is_vhd r \<and> is_bootable_img r) \<and>
   map_option fst (IsHDImage ex_hd_env ''disk.vhd'' (ex_payload @ ex_unsummed_footer[100 := 1]) memset_report) =
     map_option fst (IsHDImage ex_hd_env ''disk.vhd'' (ex_payload @ ex_unsummed_footer) memset_report)"
proof -
  have dec: "footer_of_bytes ex_unsummed_footer = fill_footer ex_append_env 512"
    unfolding ex_unsummed_footer_def by (rule footer_of_bytes_footer_bytes) (rule fill_footer_wf)
  have len: "length ex_unsummed_footer = 512" "512 \<le> length ex_payload"
    "length ex_payload + 512 < 2 ^ 63"
    by (simp_all add: ex_file_lengths ex_payload_def)
  have magic: "cookie (footer_of_bytes ex_unsummed_footer) = conectix_str"
    by (simp add: dec fill_footer_cookie)
  have sup: "supported_fixed_disk (footer_of_bytes ex_unsummed_footer)"
    by (simp add: dec fill_footer_supported)
  have bad: "\<not> checksum_matches (footer_of_bytes ex_unsummed_footer)"
    by (simp add: dec ex_unsummed_mismatch)
  have mbr: "\<forall>ft'. he_AnalyzeMBR ex_hd_env (ex_payload @ ft') =
                  he_AnalyzeMBR ex_hd_env (ex_payload @ ex_unsummed_footer)"
    by (simp add: ex_hd_env_def)
  have t: "he_AnalyzeMBR ex_hd_env (ex_payload @ ex_unsummed_footer)"
    by (simp add: ex_hd_env_def)
  from checksum_mismatch_not_fatal [OF disk_vhd_uncompressed ex_hd_io_ok len magic sup bad mbr,
      where i = 100 and b = 1] len magic sup bad t
  show ?thesis by simp
qed

text \<open>
  C4. Backend fallback. Let both backends be marked available, and let the child process
  of the 7-Zip backend be launched and end with the expected file \<^verbatim>\<open>bootmgfw.efi\<close> absent
  from the directory of the destination. Then \<^verbatim>\<open>WimExtractFile\<close>, called with three
  paths, returns; \<^verbatim>\<open>WimExtractFile_7z\<close> has been entered and \<^verbatim>\<open>WimExtractFile_API\<close> after it,
  in that order and nothing else; and the value returned is the value of the API backend.
\<close>

theorem backend_fallback:
  assumes tool: "has_7z st" and api: "has_wimgapi st"
    and run: "we_CreateProcessU_ok env" "we_7z_exits env"
    and absent: "\<not> we_access_extracted env (tmpdst_file env dst)"
  shows "\<exists>st'. WimExtractFile env st (Some wim_image) index (Some src) (Some dst) =
                 Some (fst (WimExtractFile_API env st wim_image index src dst), st') \<and>
               attempts st' = attempts st @ [Backend_7z, Backend_API]"
proof -
  let ?st1 = "uprintf (Did_not_extract (tmpdst_file env dst))
               (UpdateProgress (uprintf (Extracting dst src)
                 (uprintf (Opening_7z wim_image index) (entered Backend_7z st))))"
  have t: "WimExtractFile_7z env st wim_image index src dst = Some (False, ?st1)"
    using run absent by (simp add: WimExtractFile_7z_def Let_def)
  have f: "has_wimgapi ?st1" and a1: "attempts ?st1 = attempts st @ [Backend_7z]"
    using api by (simp_all add: uprintf_def UpdateProgress_def entered_def)
  have w: "WimExtractFile env st (Some wim_image) index (Some src) (Some dst) =
             Some (WimExtractFile_API env ?st1 wim_image index src dst)"
    using tool api f by (simp add: WimExtractFile_def t)
  obtain r st2 where p: "WimExtractFile_API env ?st1 wim_image index src dst = (r, st2)"
    by (cases "WimExtractFile_API env ?st1 wim_image index src dst")
  have r: "r = fst (WimExtractFile_API env st wim_image index src dst)"
    using WimExtractFile_API_fst [of env ?st1 wim_image index src dst st] by (simp add: p)
  have a2: "attempts st2 = attempts st @ [Backend_7z, Backend_API]"
    using WimExtractFile_API_attempts [of env ?st1 wim_image index src dst] by (simp add: p a1)
  from w r a2 show ?thesis by (simp add: p)
qed

text \<open>
  C4 on a system where 7-Zip leaves nothing behind and \<^verbatim>\<open>wimgapi.dll\<close> works: the call
  returns \<^verbatim>\<open>TRUE\<close>, through the API backend.
\<close>

theorem backend_fallback_witness:
  "has_7z ex_probed \<and> has_wimgapi ex_probed \<and>
   we_CreateProcessU_ok ex_wim_env \<and> we_7z_exits ex_wim_env \<and>
   \<not> we_access_extracted ex_wim_env (tmpdst_file ex_wim_env ''bootmgfw.efi'') \<and>
   (\<exists>st'. WimExtractFile ex_wim_env ex_probed (Some ''boot.wim'') 1 (Some ''bootmgfw.efi'')
            (Some ''bootmgfw.efi'') = Some (True, st') \<and>
          attempts st' = [Backend_7z, Backend_API])"
proof -
  have h: "has_7z ex_probed" "has_wimgapi ex_probed"
    "we_CreateProcessU_ok ex_wim_env" "we_7z_exits ex_wim_env"
    "\<not> we_access_extracted ex_wim_env (tmpdst_file ex_wim_env ''bootmgfw.efi'')"
    by (simp_all add: ex_probed_def ex_wim_env_def)
  have v: "fst (WimExtractFile_API ex_wim_env ex_probed ''boot.wim'' 1 ''bootmgfw.efi'' ''bootmgfw.efi'')"
    by (simp add: WimExtractFile_API_def api_out_def Let_def ex_wim_env_def)
  have e: "attempts ex_probed = []"
    by (simp add: ex_probed_def)
  from backend_fallback [OF h, of "''boot.wim''" 1 "''bootmgfw.efi''"] h v e
  show ?thesis by simp
qed

text \<open>
  C6, as the code has it. For a file (uncompressed by its name, at least 1024 bytes, every
  system call succeeding) whose trailing footer has the magic, \<^verbatim>\<open>IsHDImage\<close> treats the
  footer as the supported variant exactly when its format version is 1.0 and its disk
  type is the fixed hard disk: then \<^verbatim>\<open>is_vhd\<close> is set and the bootable flag is the verdict
  of \<^verbatim>\<open>AnalyzeMBR\<close>. For every other combination of these two fields the bootable flag
  is forced to false and \<^verbatim>\<open>is_vhd\<close> is left as it was. The data offset is not looked at.
\<close>

theorem supported_variant_gate:
  assumes unc: "IsCompressedBootableImage path iso_report =
                  Some (False, iso_report\<lparr>compression_type := BLED_COMPRESSION_NONE\<rparr>)"
    and io: "hd_io_ok env"
    and len: "1024 \<le> length file" "length file < 2 ^ 63"
    and magic: "cookie (trailing_footer file) = conectix_str"
  shows "\<exists>r lg. IsHDImage env path file iso_report = Some (r, lg) \<and>
           (if bswap_uint32 (file_format_version (trailing_footer file)) = VHD_FOOTER_FILE_FORMAT_V1_0 \<and>
               bswap_uint32 (disk_type (trailing_footer file)) = VHD_FOOTER_TYPE_FIXED_HARD_DISK
            then is_vhd r \<and> is_bootable_img r = he_AnalyzeMBR env file \<and>
                 Unsupported_type_of_VHD_image \<notin> set lg
            else \<not> is_bootable_img r \<and> is_vhd r = is_vhd iso_report \<and>
                 lg = [Unsupported_type_of_VHD_image])"
proof -
  have l2: "length file < 2 ^ 64" using len by simp
  show ?thesis
    using magic
    by (auto simp add: IsHDImage_uncompressed [OF unc io len(1) l2] Let_def supported_fixed_disk_def)
qed

text \<open>C6 at the file \<^verbatim>\<open>disk.vhd\<close> of 512 zero bytes and the footer built for them.\<close>

theorem supported_variant_gate_witness:
  "hd_io_ok ex_hd_env \<and> 1024 \<le> length ex_vhd_file \<and> length ex_vhd_file < 2 ^ 63 \<and>
   cookie (trailing_footer ex_vhd_file) = conectix_str \<and>
   bswap_uint32 (file_format_version (trailing_footer ex_vhd_file)) = VHD_FOOTER_FILE_FORMAT_V1_0 \<and>
   bswap_uint32 (disk_type (trailing_footer ex_vhd_file)) = VHD_FOOTER_TYPE_FIXED_HARD_DISK \<and>
   (\<exists>r lg. IsHDImage ex_hd_env ''disk.vhd'' ex_vhd_file memset_report = Some (r, lg) \<and>
      is_vhd r \<and> is_bootable_img r \<and> Unsupported_type_of_VHD_image \<notin> set lg)"
proof -
  have tf: "trailing_footer ex_vhd_file = build_footer ex_append_env 512"
    unfolding ex_vhd_file_def by (rule trailing_footer_bytes) (rule build_footer_wf)
  have len: "1024 \<le> length ex_vhd_file" "length ex_vhd_file < 2 ^ 63"
    by (simp_all add: ex_file_lengths)
  have magic: "cookie (trailing_footer ex_vhd_file) = conectix_str"
    by (simp add: tf build_footer_cookie)
  have sup: "bswap_uint32 (file_format_version (trailing_footer ex_vhd_file)) = VHD_FOOTER_FILE_FORMAT_V1_0"
    "bswap_uint32 (disk_type (trailing_footer ex_vhd_file)) = VHD_FOOTER_TYPE_FIXED_HARD_DISK"
    using build_footer_supported [of ex_append_env 512] by (simp_all add: tf supported_fixed_disk_def)
  have t: "he_AnalyzeMBR ex_hd_env ex_vhd_file"
    by (simp add: ex_hd_env_def)
  from supported_variant_gate [OF disk_vhd_uncompressed ex_hd_io_ok len magic, of memset_report]
    ex_hd_io_ok len magic sup t
  show ?thesis by simp
qed

text \<open>
  C6 as the specification states it fails: a footer whose data offset is zero, not
  all-ones, with version 1.0 and the fixed disk type, is treated as the supported variant.
\<close>

theorem supported_variant_gate_counterexample:
  "bswap_uint64 (data_offset (trailing_footer ex_offset_file)) \<noteq> VHD_FOOTER_DATA_OFFSET_FIXED_DISK \<and>
   map_option fst (IsHDImage ex_hd_env ''disk.vhd'' ex_offset_file memset_report) =
     Some \<lparr> compression_type = BLED_COMPRESSION_NONE, is_bootable_img = True,
            projected_size = 512, is_vhd = True \<rparr>"
proof -
  let ?g = "(build_footer ex_append_env 512)\<lparr>data_offset := 0\<rparr>"
  have wf: "footer_wf ?g"
    using build_footer_wf [of ex_append_env 512] by (simp add: footer_wf_def)
  have tf: "trailing_footer ex_offset_file = ?g"
    unfolding ex_offset_file_def using wf by (rule trailing_footer_bytes)
  have off: "bswap_uint64 (data_offset (trailing_footer ex_offset_file)) \<noteq> VHD_FOOTER_DATA_OFFSET_FIXED_DISK"
    by (simp add: tf bswap_uint64_def word_bytes_numeral VHD_FOOTER_DATA_OFFSET_FIXED_DISK_def)
  have magic: "cookie (trailing_footer ex_offset_file) = conectix_str"
    by (simp add: tf build_footer_cookie)
  have sup: "supported_fixed_disk (trailing_footer ex_offset_file)"
    using build_footer_supported [of ex_append_env 512] by (simp add: tf supported_fixed_disk_def)
  have len: "1024 \<le> length ex_offset_file" "length ex_offset_file < 2 ^ 64"
    by (simp_all add: ex_file_lengths)
  from IsHDImage_supported [OF disk_vhd_uncompressed ex_hd_io_ok len magic sup, of memset_report] off
  show ?thesis by (simp add: ex_file_lengths memset_report_def ex_hd_env_def)
qed

text \<open>
  C7. Open failure. The report of a classification call is created fresh: every field
  is zero when \<^verbatim>\<open>IsHDImage\<close> is entered. When the file cannot be opened, whatever the path
  and the content of the file, \<^verbatim>\<open>IsHDImage\<close> returns; the bootable flag of the report, which
  is the value it returns, is false; and no other signal is produced: the report is the
  fresh report still, and the only line logged says that the image could not be opened.
\<close>

theorem open_failure_result:
  assumes "\<not> he_CreateFileU_ok env"
  shows "\<exists>r lg. IsHDImage env path file memset_report = Some (r, lg) \<and>
           \<not> is_bootable_img r \<and> r = memset_report \<and> lg = [Could_not_open_image]"
  using assms by (simp add: IsHDImage_def memset_report_def)

text \<open>C7 at the path \<^verbatim>\<open>missing.img\<close>, on a system where \<^verbatim>\<open>CreateFileU\<close> fails.\<close>

theorem open_failure_result_witness:
  "\<not> he_CreateFileU_ok (ex_hd_env\<lparr>he_CreateFileU_ok := False\<rparr>) \<and>
   IsHDImage (ex_hd_env\<lparr>he_CreateFileU_ok := False\<rparr>) ''missing.img'' [] memset_report =
     Some (memset_report, [Could_not_open_image]) \<and>
   \<not> is_bootable_img memset_report"
  using open_failure_result [of "ex_hd_env\<lparr>he_CreateFileU_ok := False\<rparr>" "''missing.img''" "[]"]
  by (auto simp add: memset_report_def)

text \<open>
  C8, as the code has it. \<^verbatim>\<open>IsCompressedBootableImage\<close> looks the string from the last dot
  of the path on (the dot included) up in the table \<^verbatim>\<open>blah\<close>, by exact comparison, when
  that dot is not the first character of the path: \<^verbatim>\<open>image.tar.gz\<close> gives gzip, \<^verbatim>\<open>image.z\<close>
  gives none and \<^verbatim>\<open>image.Z\<close> gives lzw. A path without a dot gives none (\<^verbatim>\<open>image\<close>), and so
  does a path whose only dot is its first character: \<^verbatim>\<open>.Z\<close> gives none.
\<close>

theorem extension_classification:
  "IsCompressedBootableImage ''image.tar.gz'' st = Some (True, st\<lparr>compression_type := BLED_COMPRESSION_GZIP\<rparr>) \<and>
   IsCompressedBootableImage ''image'' st = Some (False, st\<lparr>compression_type := BLED_COMPRESSION_NONE\<rparr>) \<and>
   IsCompressedBootableImage ''image.z'' st = Some (False, st\<lparr>compression_type := BLED_COMPRESSION_NONE\<rparr>) \<and>
   IsCompressedBootableImage ''image.Z'' st = Some (True, st\<lparr>compression_type := BLED_COMPRESSION_LZW\<rparr>) \<and>
   IsCompressedBootableImage ''.Z'' st = Some (False, st\<lparr>compression_type := BLED_COMPRESSION_NONE\<rparr>) \<and>
   (stem \<noteq> [] \<and> CHR ''.'' \<notin> set ext \<longrightarrow>
      IsCompressedBootableImage (stem @ CHR ''.'' # ext) st =
        (case map_of blah (CHR ''.'' # ext) of
           Some t \<Rightarrow> Some (True, st\<lparr>compression_type := t\<rparr>)
         | None \<Rightarrow> Some (False, st\<lparr>compression_type := BLED_COMPRESSION_NONE\<rparr>))) \<and>
   (CHR ''.'' \<notin> set ext \<longrightarrow>
      IsCompressedBootableImage (CHR ''.'' # ext) st =
        Some (False, st\<lparr>compression_type := BLED_COMPRESSION_NONE\<rparr>)) \<and>
   (path \<noteq> [] \<and> CHR ''.'' \<notin> set path \<longrightarrow>
      IsCompressedBootableImage path st =
        Some (False, st\<lparr>compression_type := BLED_COMPRESSION_NONE\<rparr>))"
proof -
  have e1: "IsCompressedBootableImage ''image.tar.gz'' st = Some (True, st\<lparr>compression_type := BLED_COMPRESSION_GZIP\<rparr>)"
    using IsCompressedBootableImage_ext [of "''gz''" "''image.tar''" st] by (simp add: blah_def)
  have e2: "IsCompressedBootableImage ''image'' st = Some (False, st\<lparr>compression_type := BLED_COMPRESSION_NONE\<rparr>)"
    by (rule IsCompressedBootableImage_no_dot) simp_all
  have e3: "IsCompressedBootableImage ''image.z'' st = Some (False, st\<lparr>compression_type := BLED_COMPRESSION_NONE\<rparr>)"
    using IsCompressedBootableImage_ext [of "''z''" "''image''" st] by (simp add: blah_def)
  have e4: "IsCompressedBootableImage ''image.Z'' st = Some (True, st\<lparr>compression_type := BLED_COMPRESSION_LZW\<rparr>)"
    using IsCompressedBootableImage_ext [of "''Z''" "''image''" st] by (simp add: blah_def)
  have e5: "IsCompressedBootableImage ''.Z'' st = Some (False, st\<lparr>compression_type := BLED_COMPRESSION_NONE\<rparr>)"
    using IsCompressedBootableImage_ext [of "''Z''" "[]" st] by simp
  show ?thesis
    using e1 e2 e3 e4 e5 IsCompressedBootableImage_ext [of ext stem st]
      IsCompressedBootableImage_ext [of ext "[]" st] IsCompressedBootableImage_no_dot [of path st]
    by simp
qed

text \<open>C8 at \<^verbatim>\<open>backup.img.xz\<close>, \<^verbatim>\<open>.bz2\<close> and \<^verbatim>\<open>README\<close>.\<close>

theorem extension_classification_witness:
  "(''backup.img'' \<noteq> [] \<and> CHR ''.'' \<notin> set ''xz'') \<and>
   IsCompressedBootableImage ''backup.img.xz'' memset_report =
     Some (True, memset_report\<lparr>compression_type := BLED_COMPRESSION_XZ\<rparr>) \<and>
   CHR ''.'' \<notin> set ''bz2'' \<and>
   IsCompressedBootableImage ''.bz2'' memset_report =
     Some (False, memset_report\<lparr>compression_type := BLED_COMPRESSION_NONE\<rparr>) \<and>
   (''README'' \<noteq> [] \<and> CHR ''.'' \<notin> set ''README'') \<and>
   IsCompressedBootableImage ''README'' memset_report =
     Some (False, memset_report\<lparr>compression_type := BLED_COMPRESSION_NONE\<rparr>)"
  using extension_classification [where st = memset_report and stem = "''backup.img''"
      and ext = "''xz''" and path = "''README''"]
    extension_classification [where st = memset_report and stem = "''backup.img''"
      and ext = "''bz2''" and path = "''README''"]
  by (simp add: blah_def)

text \<open>
  C8 as the specification states it fails at the path \<^verbatim>\<open>.Z\<close>: the type is none, not lzw.
\<close>

theorem extension_classification_counterexample:
  "IsCompressedBootableImage ''.Z'' memset_report =
     Some (False, memset_report\<lparr>compression_type := BLED_COMPRESSION_NONE\<rparr>) \<and>
   BLED_COMPRESSION_NONE \<noteq> BLED_COMPRESSION_LZW"
  using IsCompressedBootableImage_ext [of "''Z''" "[]" memset_report] by simp

text \<open>
  C9, as the code has it. When the container path, the member path or the destination
  path is \<^verbatim>\<open>NULL\<close>, \<^verbatim>\<open>WimExtractFile\<close> returns false, enters neither backend and makes no
  progress call. When a backend is already marked available it changes nothing at all.
  When none is, \<^verbatim>\<open>WimExtractCheck\<close> has run first, before the arguments are looked at, and
  the registry of backends is what that probe found.
\<close>

theorem null_argument_guard:
  assumes "wim_image = None \<or> src = None \<or> dst = None"
  shows "\<exists>st'. WimExtractFile env st wim_image index src dst = Some (False, st') \<and>
               attempts st' = attempts st \<and> progress_finalized st' = progress_finalized st \<and>
               (has_wimgapi st \<or> has_7z st \<longrightarrow> st' = st) \<and>
               (\<not> has_wimgapi st \<and> \<not> has_7z st \<longrightarrow> st' = snd (WimExtractCheck env st))"
  using assms WimExtractCheck_trace [of env st]
  by (auto simp add: WimExtractFile_def Let_def split: prod.split option.split)

text \<open>C9 at a \<^verbatim>\<open>NULL\<close> destination, with both backends marked available.\<close>

theorem null_argument_guard_witness:
  "((Some ''boot.wim'' = None \<or> Some ''bootmgfw.efi'' = None \<or> (None :: string option) = None) \<and>
    (has_wimgapi ex_probed \<or> has_7z ex_probed)) \<and>
   WimExtractFile ex_wim_env ex_probed (Some ''boot.wim'') 1 (Some ''bootmgfw.efi'') None =
     Some (False, ex_probed)"
  using null_argument_guard [of "Some ''boot.wim''" "Some ''bootmgfw.efi''" None ex_wim_env ex_probed 1]
  by (auto simp add: ex_probed_def)

text \<open>
  C9 as the specification states it fails: with no backend marked available yet and a
  \<^verbatim>\<open>NULL\<close> container path, the call returns false but has marked the API backend
  available.
\<close>

theorem null_argument_guard_counterexample:
  "WimExtractFile ex_wim_env ex_unprobed None 1 (Some ''bootmgfw.efi'') (Some ''bootmgfw.efi'') =
     Some (False, ex_unprobed\<lparr>has_wimgapi := True,
                               wim_log := [WIM_extraction_methods_supported False True]\<rparr>) \<and>
   has_wimgapi (ex_unprobed\<lparr>has_wimgapi := True,
                             wim_log := [WIM_extraction_methods_supported False True]\<rparr>) \<noteq>
     has_wimgapi ex_unprobed"
  by (simp add: WimExtractFile_def WimExtractCheck_def Get7ZipPath_def uprintf_def Let_def
      ex_wim_env_def ex_unprobed_def)

text \<open>
  C10. The footer is subtracted before the support check. For a file (uncompressed by
  its name, at least 1024 bytes, every system call succeeding) whose trailing footer has
  the magic but not version 1.0 with the fixed disk type, \<^verbatim>\<open>IsHDImage\<close> reports the file
  size less 512 as the projected size, which so differs from the file size, and reports
  the file as not bootable.
\<close>

theorem footer_subtracted_when_unsupported:
  assumes unc: "IsCompressedBootableImage path iso_report =
                  Some (False, iso_report\<lparr>compression_type := BLED_COMPRESSION_NONE\<rparr>)"
    and io: "hd_io_ok env"
    and len: "1024 \<le> length file" "length file < 2 ^ 63"
    and magic: "cookie (trailing_footer file) = conectix_str"
    and unsup: "\<not> supported_fixed_disk (trailing_footer file)"
  shows "\<exists>r lg. IsHDImage env path file iso_report = Some (r, lg) \<and>
           unat (projected_size r) = length file - 512 \<and>
           projected_size r \<noteq> word_of_nat (length file) \<and> \<not> is_bootable_img r"
proof -
  have l2: "length file < 2 ^ 64" using len by simp
  have sz: "unat (word_of_nat (length file) - 512 :: 64 word) = length file - 512"
    using len(1) l2 by (rule ptr_unat)
  have "unat (word_of_nat (length file) :: 64 word) = length file"
    using l2 by (simp add: unat_of_nat)
  with sz len(1) have "unat (word_of_nat (length file) - 512 :: 64 word) \<noteq>
      unat (word_of_nat (length file) :: 64 word)"
    by simp
  then have ne: "word_of_nat (length file) - 512 \<noteq> (word_of_nat (length file) :: 64 word)"
    by auto
  show ?thesis
    using sz ne by (simp add: IsHDImage_unsupported [OF unc io len(1) l2 magic unsup])
qed

text \<open>C10 at a file of 1024 bytes whose footer has the disk type of a dynamic disk.\<close>

theorem footer_subtracted_when_unsupported_witness:
  "hd_io_ok ex_hd_env \<and> 1024 \<le> length ex_dynamic_file \<and> length ex_dynamic_file < 2 ^ 63 \<and>
   cookie (trailing_footer ex_dynamic_file) = conectix_str \<and>
   \<not> supported_fixed_disk (trailing_footer ex_dynamic_file) \<and>
   (\<exists>r lg. IsHDImage ex_hd_env ''disk.vhd'' ex_dynamic_file memset_report = Some (r, lg) \<and>
      unat (projected_size r) = 512 \<and> \<not> is_bootable_img r)"
proof -
  let ?g = "(build_footer ex_append_env 512)\<lparr>disk_type := bswap_uint32 3\<rparr>"
  have wf: "footer_wf ?g"
    using build_footer_wf [of ex_append_env 512] by (simp add: footer_wf_def)
  have tf: "trailing_footer ex_dynamic_file = ?g"
    unfolding ex_dynamic_file_def using wf by (rule trailing_footer_bytes)
  have len: "1024 \<le> length ex_dynamic_file" "length ex_dynamic_file < 2 ^ 63"
    by (simp_all add: ex_file_lengths)
  have magic: "cookie (trailing_footer ex_dynamic_file) = conectix_str"
    by (simp add: tf build_footer_cookie)
  have unsup: "\<not> supported_fixed_disk (trailing_footer ex_dynamic_file)"
    by (simp add: tf supported_fixed_disk_def bswap_uint32_involution VHD_FOOTER_TYPE_FIXED_HARD_DISK_def)
  from footer_subtracted_when_unsupported [OF disk_vhd_uncompressed ex_hd_io_ok len magic unsup,
      of memset_report] ex_hd_io_ok len magic unsup
  show ?thesis by (auto simp add: ex_file_lengths)
qed

end
